theory Spec2Isabelle
  imports Complex_Main "HOL-Library.Char_ord" "HOL-Library.List_Lexorder"
begin

section \<open>Python strings\<close>

text \<open>
  A Python \<open>str\<close> is modelled as a \<open>string\<close> of ASCII characters. The operations below
  are the ones \<open>query_processor.py\<close> applies to the query text and to the model's
  response: \<open>lower\<close>, \<open>strip\<close>, the substring test \<open>in\<close>, \<open>split('\n')\<close>,
  \<open>join\<close>, \<open>re.findall(r'\d+', _)\<close>, \<open>int\<close> and the formatting of an integer
  inside an f-string.
\<close>

definition lower_char :: "char \<Rightarrow> char" where
  "lower_char c =
     (if 65 \<le> (of_char c :: nat) \<and> (of_char c :: nat) \<le> 90
      then char_of ((of_char c :: nat) + 32) else c)"

definition lower :: "string \<Rightarrow> string" where
  "lower s = map lower_char s"

text \<open>The characters \<open>str.strip()\<close> removes: tab, LF, VT, FF, CR, FS, GS, RS, US, space.\<close>

definition is_space :: "char \<Rightarrow> bool" where
  "is_space c = ((of_char c :: nat) \<in> {9, 10, 11, 12, 13, 28, 29, 30, 31, 32})"

definition strip :: "string \<Rightarrow> string" where
  "strip s = rev (dropWhile is_space (rev (dropWhile is_space s)))"

text \<open>\<open>sub in s\<close>: \<open>sub\<close> occurs in \<open>s\<close> as a contiguous block.\<close>

fun starts_with :: "string \<Rightarrow> string \<Rightarrow> bool" where
  "starts_with [] s = True"
| "starts_with (p # ps) [] = False"
| "starts_with (p # ps) (c # cs) = (p = c \<and> starts_with ps cs)"

fun str_in :: "string \<Rightarrow> string \<Rightarrow> bool" where
  "str_in sub [] = (sub = [])"
| "str_in sub (c # cs) = (starts_with sub (c # cs) \<or> str_in sub cs)"

text \<open>\<open>any(word in s for word in words)\<close>\<close>

definition any_in :: "string list \<Rightarrow> string \<Rightarrow> bool" where
  "any_in words s = list_ex (\<lambda>word. str_in word s) words"

text \<open>\<open>s.split('\n')\<close>: the lines of \<open>s\<close>; never empty.\<close>

fun split_acc :: "char \<Rightarrow> string \<Rightarrow> string \<Rightarrow> string list" where
  "split_acc sep cur [] = [rev cur]"
| "split_acc sep cur (c # cs) =
     (if c = sep then rev cur # split_acc sep [] cs else split_acc sep (c # cur) cs)"

definition split_nl :: "string \<Rightarrow> string list" where
  "split_nl s = split_acc (CHR 0x0A) [] s"

text \<open>\<open>sep.join(ls)\<close>\<close>

fun join :: "string \<Rightarrow> string list \<Rightarrow> string" where
  "join sep [] = []"
| "join sep [l] = l"
| "join sep (l # m # ls) = l @ sep @ join sep (m # ls)"

text \<open>\<open>\d\<close> on ASCII text, and the value of a digit.\<close>

definition is_digit :: "char \<Rightarrow> bool" where
  "is_digit c = (48 \<le> (of_char c :: nat) \<and> (of_char c :: nat) \<le> 57)"

definition digit_val :: "char \<Rightarrow> nat" where
  "digit_val c = (of_char c :: nat) - 48"

text \<open>
  \<open>re.findall(r'\d+', text)\<close>: the maximal runs of digits, left to right.
  \<open>cur\<close> holds the run being read, reversed.
\<close>

fun findall_digits_acc :: "string \<Rightarrow> string \<Rightarrow> string list" where
  "findall_digits_acc cur [] = (if cur = [] then [] else [rev cur])"
| "findall_digits_acc cur (c # cs) =
     (if is_digit c then findall_digits_acc (c # cur) cs
      else if cur = [] then findall_digits_acc [] cs
      else rev cur # findall_digits_acc [] cs)"

definition findall_digits :: "string \<Rightarrow> string list" where
  "findall_digits text = findall_digits_acc [] text"

text \<open>\<open>int(s)\<close> on a run of digits. Python integers are unbounded.\<close>

definition int_of_digits :: "string \<Rightarrow> nat" where
  "int_of_digits s = foldl (\<lambda>acc c. 10 * acc + digit_val c) 0 s"

text \<open>\<open>str(n)\<close> for \<open>n \<ge> 0\<close>, as an f-string field \<open>{n}\<close> renders it.\<close>

definition digit_char :: "nat \<Rightarrow> char" where
  "digit_char d = char_of (48 + d)"

fun str_nat :: "nat \<Rightarrow> string" where
  "str_nat n = (if n < 10 then [digit_char n] else str_nat (n div 10) @ [digit_char (n mod 10)])"

declare str_nat.simps [simp del]

text \<open>The field \<open>{n:,}\<close>: the decimal digits in groups of three, separated by commas.\<close>

fun group_thousands :: "nat \<Rightarrow> string" where
  "group_thousands n =
     (if n < 1000 then str_nat n
      else group_thousands (n div 1000) @ '','' @
           [digit_char (n mod 1000 div 100), digit_char (n mod 100 div 10), digit_char (n mod 10)])"

declare group_thousands.simps [simp del]

section \<open>Exceptions\<close>

text \<open>
  A raised Python exception: its class name and its message (\<open>str(e)\<close>). Every exception
  of the model is an instance of \<open>Exception\<close>, the class the handlers of
  \<open>query_processor.py\<close> catch. A function that may raise returns \<open>exn + 'a\<close>, with
  \<open>Inl\<close> for the exception.
\<close>

datatype exn = Exn (exn_class: string) (exn_str: string)

definition bind_exn :: "exn + 'a \<Rightarrow> ('a \<Rightarrow> exn + 'b) \<Rightarrow> exn + 'b" where
  "bind_exn m f = (case m of Inl e \<Rightarrow> Inl e | Inr v \<Rightarrow> f v)"

text \<open>\<open>try: body  except Exception as e: handler(e)\<close>\<close>

definition try_except :: "exn + 'a \<Rightarrow> (exn \<Rightarrow> exn + 'a) \<Rightarrow> exn + 'a" where
  "try_except body handler = (case body of Inl e \<Rightarrow> handler e | Inr v \<Rightarrow> Inr v)"

text \<open>The same around a body that also leaves a state behind, raised or not.\<close>

definition try_except_st ::
  "(exn + 'a) \<times> 's \<Rightarrow> (exn \<Rightarrow> exn + 'a) \<Rightarrow> (exn + 'a) \<times> 's" where
  "try_except_st body handler = (try_except (fst body) handler, snd body)"

fun map_exn :: "('a \<Rightarrow> exn + 'b) \<Rightarrow> 'a list \<Rightarrow> exn + 'b list" where
  "map_exn f [] = Inr []"
| "map_exn f (x # xs) =
     (case f x of Inl e \<Rightarrow> Inl e
      | Inr y \<Rightarrow> (case map_exn f xs of Inl e \<Rightarrow> Inl e | Inr ys \<Rightarrow> Inr (y # ys)))"

section \<open>Data frames\<close>

text \<open>
  A pandas \<open>DataFrame\<close>, column by column as pandas stores it: the row labels (\<open>index\<close>)
  and, for each column in order, its name, its dtype and its values. \<open>Null\<close> is a missing
  value (\<open>NaN\<close> or \<open>None\<close>: what \<open>isnull()\<close> reports). Numbers are real numbers: the
  rounding error of floating point is not modelled. The dtypes are those of a table of
  numbers and text.
\<close>

datatype cell = Null | NumV real | StrV string

datatype dtype = Int64 | Float64 | Object

type_synonym series = "dtype \<times> cell list"

record dataframe =
  index :: "cell list"
  data :: "(string \<times> series) list"

text \<open>\<open>df.columns\<close>, \<open>len(df)\<close>, \<open>df.copy()\<close>\<close>

definition columns :: "dataframe \<Rightarrow> string list" where
  "columns df = map fst (data df)"

definition len :: "dataframe \<Rightarrow> nat" where
  "len df = length (index df)"

definition copy :: "dataframe \<Rightarrow> dataframe" where
  "copy df = df"

text \<open>\<open>df[column]\<close>: the column of that name; \<open>KeyError\<close> when there is none.\<close>

definition getitem :: "dataframe \<Rightarrow> string \<Rightarrow> exn + series" where
  "getitem df column =
     (case map_of (data df) column of
        None \<Rightarrow> Inl (Exn ''KeyError'' column)
      | Some s \<Rightarrow> Inr s)"

text \<open>\<open>df.head(n)\<close> for \<open>n \<ge> 0\<close>: the first \<open>n\<close> rows, all of them when there are fewer.\<close>

definition head :: "nat \<Rightarrow> dataframe \<Rightarrow> dataframe" where
  "head n df =
     \<lparr>index = take n (index df),
      data = map (\<lambda>(c, (t, vs)). (c, (t, take n vs))) (data df)\<rparr>"

text \<open>\<open>df[mask]\<close>: the rows at which the boolean mask \<open>m\<close> is true, in their order.\<close>

definition select :: "bool list \<Rightarrow> 'a list \<Rightarrow> 'a list" where
  "select m xs = map snd (filter fst (zip m xs))"

definition select_rows :: "bool list \<Rightarrow> dataframe \<Rightarrow> dataframe" where
  "select_rows m df =
     \<lparr>index = select m (index df),
      data = map (\<lambda>(c, (t, vs)). (c, (t, select m vs))) (data df)\<rparr>"

text \<open>
  Comparison of a value of a column with a scalar, as pandas applies Python's \<open>>=\<close> and
  \<open><=\<close>: a missing value on either side compares false, numbers compare as numbers, text
  as text (by code point), and a number against text raises \<open>TypeError\<close>.
\<close>

definition type_error :: exn where
  "type_error = Exn ''TypeError'' ''comparison not supported between these types''"

fun cell_ge :: "cell \<Rightarrow> cell \<Rightarrow> exn + bool" where
  "cell_ge Null a = Inr False"
| "cell_ge v Null = Inr False"
| "cell_ge (NumV x) (NumV a) = Inr (a \<le> x)"
| "cell_ge (StrV s) (StrV a) = Inr (a \<le> s)"
| "cell_ge (NumV x) (StrV a) = Inl type_error"
| "cell_ge (StrV s) (NumV a) = Inl type_error"

fun cell_le :: "cell \<Rightarrow> cell \<Rightarrow> exn + bool" where
  "cell_le Null b = Inr False"
| "cell_le v Null = Inr False"
| "cell_le (NumV x) (NumV b) = Inr (x \<le> b)"
| "cell_le (StrV s) (StrV b) = Inr (s \<le> b)"
| "cell_le (NumV x) (StrV b) = Inl type_error"
| "cell_le (StrV s) (NumV b) = Inl type_error"

fun is_text :: "cell \<Rightarrow> bool" where
  "is_text (StrV s) = True"
| "is_text v = False"

text \<open>
  \<open>series >= a\<close> and \<open>series <= b\<close>: a numeric column against text raises whatever the
  column holds; otherwise the comparison is made value by value.
\<close>

definition series_ge :: "series \<Rightarrow> cell \<Rightarrow> exn + bool list" where
  "series_ge s a =
     (if fst s \<noteq> Object \<and> is_text a then Inl type_error
      else map_exn (\<lambda>v. cell_ge v a) (snd s))"

definition series_le :: "series \<Rightarrow> cell \<Rightarrow> exn + bool list" where
  "series_le s b =
     (if fst s \<noteq> Object \<and> is_text b then Inl type_error
      else map_exn (\<lambda>v. cell_le v b) (snd s))"

text \<open>\<open>series == c\<close> never raises, and a missing value equals nothing.\<close>

definition series_eq :: "series \<Rightarrow> cell \<Rightarrow> bool list" where
  "series_eq s c = map (\<lambda>v. v \<noteq> Null \<and> v = c) (snd s)"

text \<open>\<open>series.isin(cs)\<close>\<close>

definition isin :: "series \<Rightarrow> cell list \<Rightarrow> bool list" where
  "isin s cs = map (\<lambda>v. v \<in> set cs) (snd s)"

text \<open>\<open>df.isnull().sum()\<close>: for each column, the number of missing values.\<close>

definition isnull_sum :: "dataframe \<Rightarrow> (string \<times> nat) list" where
  "isnull_sum df = map (\<lambda>(c, (t, vs)). (c, length (filter (\<lambda>v. v = Null) vs))) (data df)"

text \<open>\<open>df.select_dtypes(include=[np.number])\<close>\<close>

definition select_dtypes_number :: "dataframe \<Rightarrow> dataframe" where
  "select_dtypes_number df =
     df\<lparr>data := filter (\<lambda>(c, (t, vs)). t = Int64 \<or> t = Float64) (data df)\<rparr>"

text \<open>
  Rounding to two decimals, as \<open>round(x, 2)\<close> and \<open>ndarray.round(2)\<close> do: scale by 100,
  round to the nearest integer with ties to the even one, scale back.
\<close>

definition rint :: "real \<Rightarrow> int" where
  "rint x =
     (let f = \<lfloor>x\<rfloor>; d = x - of_int f
      in if d < 1 / 2 then f else if 1 / 2 < d then f + 1 else if even f then f else f + 1)"

definition round2 :: "real \<Rightarrow> real" where
  "round2 x = of_int (rint (x * 100)) / 100"

section \<open>What the program takes from its environment\<close>

text \<open>
  The objects a generated fragment can name or return. \<open>DfRef\<close> is the frame object the
  query processor holds (\<open>self.df\<close>), passed by reference.
\<close>

datatype pyobj =
    DfRef
  | DataFrameObj dataframe
  | ModuleObj string
  | BuiltinObj string
  | NumObj real
  | StrObj string
  | NoneObj

type_synonym scope = "(string \<times> pyobj) list"

text \<open>
  The configuration value read from the process environment and the library and service
  calls whose results the program passes on without looking inside:
  \<^item> \<open>OPENAI_API_KEY\<close>: \<open>Config.OPENAI_API_KEY\<close>, \<open>None\<close> when the variable is unset;
  \<^item> \<open>ChatCompletion_create model messages max_tokens temperature\<close>: the content of the
    first choice
    of the response of \<open>openai.ChatCompletion.create\<close>, or the exception of the call;
  \<^item> \<open>py_exec code globals frame\<close>: \<open>exec(code, globals)\<close> with the frame object holding
    \<open>frame\<close>; the exception raised or the globals afterwards, and the frame object's
    content afterwards (a fragment may change it in place);
  \<^item> \<open>py_eval expr globals frame\<close>: \<open>eval(expr, globals)\<close>, likewise;
  \<^item> \<open>describe\<close>: \<open>DataFrame.describe()\<close>, which raises on a frame without columns;
  \<^item> \<open>pearson xs ys\<close>: the Pearson coefficient of two columns, \<open>Null\<close> where undefined;
  \<^item> \<open>groupby_agg frame by col func\<close>:
    \<open>frame.groupby(by)[col].agg(func).reset_index()\<close>;
  \<^item> \<open>memory_usage\<close>: \<open>Series.memory_usage(deep=True)\<close>, in bytes;
  \<^item> \<open>str_num\<close>: \<open>str\<close> of a number;
  \<^item> \<open>repr_dtypes\<close>, \<open>fmt_memory_mb\<close>, \<open>to_string\<close>: the renderings of a frame that the
    prompt quotes.
\<close>

record env =
  OPENAI_API_KEY :: "string option"
  ChatCompletion_create ::
    "string \<Rightarrow> (string \<times> string) list \<Rightarrow> nat \<Rightarrow> real \<Rightarrow> exn + string"
  py_exec :: "string \<Rightarrow> scope \<Rightarrow> dataframe \<Rightarrow> (exn + scope) \<times> dataframe"
  py_eval :: "string \<Rightarrow> scope \<Rightarrow> dataframe \<Rightarrow> (exn + pyobj) \<times> dataframe"
  describe :: "dataframe \<Rightarrow> exn + dataframe"
  pearson :: "cell list \<Rightarrow> cell list \<Rightarrow> cell"
  groupby_agg :: "dataframe \<Rightarrow> string \<Rightarrow> string \<Rightarrow> string \<Rightarrow> exn + dataframe"
  memory_usage :: "series \<Rightarrow> real"
  str_num :: "real \<Rightarrow> string"
  repr_dtypes :: "dataframe \<Rightarrow> string"
  fmt_memory_mb :: "dataframe \<Rightarrow> string"
  to_string :: "dataframe \<Rightarrow> string"

text \<open>\<open>config.py\<close>: the constants of \<open>Config\<close> the query processor reads.\<close>

definition MODEL_NAME :: string where
  "MODEL_NAME = ''gpt-4''"

definition MAX_TOKENS :: nat where
  "MAX_TOKENS = 2000"

definition TEMPERATURE :: real where
  "TEMPERATURE = 1 / 10"

text \<open>\<open>if Config.OPENAI_API_KEY:\<close> holds for a key that is set and not the empty string.\<close>

definition key_configured :: "env \<Rightarrow> bool" where
  "key_configured E = (case OPENAI_API_KEY E of None \<Rightarrow> False | Some k \<Rightarrow> k \<noteq> [])"

section \<open>\<open>data_processor.py\<close>\<close>

record DataProcessor =
  dp_df :: dataframe
  dp_original_df :: dataframe

definition DataProcessor_init :: "dataframe \<Rightarrow> DataProcessor" where
  "DataProcessor_init dataframe = \<lparr>dp_df = copy dataframe, dp_original_df = copy dataframe\<rparr>"

subsection \<open>\<open>get_column_info\<close>\<close>

text \<open>
  One entry per column. \<open>Min_Max_Mean\<close> is present for a numeric column only and
  \<open>Sample_Values\<close> for a text column with fewer than ten distinct values only, as the keys
  \<open>'Min'\<close>, \<open>'Max'\<close>, \<open>'Mean'\<close> and \<open>'Sample Values'\<close> of the source's dictionary are.
\<close>

record column_info =
  Column :: string
  Data_Type :: string
  Non_Null_Count :: nat
  Null_Count :: nat
  Unique_Values :: nat
  Memory_Usage_KB :: real
  Min_Max_Mean :: "(cell \<times> cell \<times> cell) option"
  Sample_Values :: "string option"

fun str_dtype :: "dtype \<Rightarrow> string" where
  "str_dtype Int64 = ''int64''"
| "str_dtype Float64 = ''float64''"
| "str_dtype Object = ''object''"

definition dropna :: "cell list \<Rightarrow> cell list" where
  "dropna vs = filter (\<lambda>v. v \<noteq> Null) vs"

text \<open>\<open>unique()\<close> keeps the first occurrence of each value, in order.\<close>

definition unique :: "cell list \<Rightarrow> cell list" where
  "unique vs = rev (remdups (rev vs))"

definition nunique :: "cell list \<Rightarrow> nat" where
  "nunique vs = length (unique (dropna vs))"

definition numbers :: "cell list \<Rightarrow> real list" where
  "numbers vs = concat (map (\<lambda>v. case v of NumV x \<Rightarrow> [x] | _ \<Rightarrow> []) vs)"

text \<open>\<open>min()\<close>, \<open>max()\<close>, \<open>mean()\<close> skip missing values and give \<open>NaN\<close> when nothing is left.\<close>

definition series_min :: "cell list \<Rightarrow> cell" where
  "series_min vs = (case numbers vs of [] \<Rightarrow> Null | x # xs \<Rightarrow> NumV (fold min xs x))"

definition series_max :: "cell list \<Rightarrow> cell" where
  "series_max vs = (case numbers vs of [] \<Rightarrow> Null | x # xs \<Rightarrow> NumV (fold max xs x))"

definition series_mean :: "cell list \<Rightarrow> cell" where
  "series_mean vs =
     (case numbers vs of [] \<Rightarrow> Null | x # xs \<Rightarrow> NumV (sum_list (x # xs) / real (length (x # xs))))"

fun round2_cell :: "cell \<Rightarrow> cell" where
  "round2_cell (NumV x) = NumV (round2 x)"
| "round2_cell v = v"

fun str_cell :: "env \<Rightarrow> cell \<Rightarrow> string" where
  "str_cell E (StrV s) = s"
| "str_cell E (NumV x) = str_num E x"
| "str_cell E Null = ''nan''"

definition is_numeric_dtype :: "dtype \<Rightarrow> bool" where
  "is_numeric_dtype t = (t = Int64 \<or> t = Float64)"

definition column_entry :: "env \<Rightarrow> string \<times> series \<Rightarrow> column_info" where
  "column_entry E cs =
     (let column = fst cs; col_data = snd cs; t = fst col_data; vs = snd col_data
      in \<lparr>Column = column,
          Data_Type = str_dtype t,
          Non_Null_Count = length (dropna vs),
          Null_Count = length (filter (\<lambda>v. v = Null) vs),
          Unique_Values = nunique vs,
          Memory_Usage_KB = round2 (memory_usage E col_data / 1024),
          Min_Max_Mean =
            (if is_numeric_dtype t
             then Some (series_min vs, series_max vs,
                        (if vs \<noteq> [] then round2_cell (series_mean vs) else Null))
             else None),
          Sample_Values =
            (if \<not> is_numeric_dtype t \<and> nunique vs < 10
             then Some (join '', '' (map (str_cell E) (take 5 (unique (dropna vs)))))
             else None)\<rparr>)"

definition get_column_info :: "env \<Rightarrow> DataProcessor \<Rightarrow> column_info list" where
  "get_column_info E self = map (column_entry E) (data (dp_df self))"

subsection \<open>\<open>analyze_missing_data\<close>\<close>

text \<open>
  The report has one row per column that has a missing value. The empty list is the empty
  frame \<open>pd.DataFrame()\<close> of the early return: the other branch never yields it.
  \<open>sort_values('Missing Count', ascending=False)\<close> is modelled by a stable sort.
\<close>

record missing_row =
  Missing_Column :: string
  Missing_Count :: nat
  Missing_Percentage :: real

definition sort_values_desc :: "missing_row list \<Rightarrow> missing_row list" where
  "sort_values_desc rs = sort_key (\<lambda>r. - int (Missing_Count r)) rs"

definition analyze_missing_data :: "DataProcessor \<Rightarrow> missing_row list" where
  "analyze_missing_data self =
     (let missing_data = filter (\<lambda>(c, n). 0 < n) (isnull_sum (dp_df self))
      in if missing_data = [] then []
         else sort_values_desc
                (map (\<lambda>(c, n).
                        \<lparr>Missing_Column = c,
                         Missing_Count = n,
                         Missing_Percentage = round2 (real n / real (len (dp_df self)) * 100)\<rparr>)
                     missing_data))"

subsection \<open>\<open>correlation_analysis\<close>\<close>

text \<open>
  \<open>corr()\<close>: the square table labelled by the frame's columns on both axes, one Pearson
  coefficient per pair of columns.
\<close>

definition corr :: "env \<Rightarrow> dataframe \<Rightarrow> dataframe" where
  "corr E df =
     \<lparr>index = map StrV (columns df),
      data = map (\<lambda>(cj, (tj, vj)).
                    (cj, (Float64, map (\<lambda>(ci, (ti, vi)). pearson E vi vj) (data df))))
                 (data df)\<rparr>"

definition correlation_analysis :: "env \<Rightarrow> DataProcessor \<Rightarrow> dataframe" where
  "correlation_analysis E self =
     (let numeric_df = select_dtypes_number (dp_df self) in corr E numeric_df)"

subsection \<open>\<open>filter_data\<close>\<close>

text \<open>
  A condition of the \<open>conditions\<close> dictionary: a dictionary with an optional \<open>'min'\<close> and an
  optional \<open>'max'\<close>, a list of values, or a single value. The dictionary itself is the list
  of its items in insertion order, which is the order \<open>conditions.items()\<close> yields.
\<close>

datatype condition =
    Range "cell option" "cell option"
  | Values "cell list"
  | Value cell

definition filter_ge :: "dataframe \<Rightarrow> string \<Rightarrow> cell \<Rightarrow> exn + dataframe" where
  "filter_ge filtered_df column a =
     bind_exn (getitem filtered_df column) (\<lambda>s.
     bind_exn (series_ge s a) (\<lambda>m. Inr (select_rows m filtered_df)))"

definition filter_le :: "dataframe \<Rightarrow> string \<Rightarrow> cell \<Rightarrow> exn + dataframe" where
  "filter_le filtered_df column b =
     bind_exn (getitem filtered_df column) (\<lambda>s.
     bind_exn (series_le s b) (\<lambda>m. Inr (select_rows m filtered_df)))"

definition filter_isin :: "dataframe \<Rightarrow> string \<Rightarrow> cell list \<Rightarrow> exn + dataframe" where
  "filter_isin filtered_df column cs =
     bind_exn (getitem filtered_df column) (\<lambda>s. Inr (select_rows (isin s cs) filtered_df))"

definition filter_eq :: "dataframe \<Rightarrow> string \<Rightarrow> cell \<Rightarrow> exn + dataframe" where
  "filter_eq filtered_df column c =
     bind_exn (getitem filtered_df column) (\<lambda>s. Inr (select_rows (series_eq s c) filtered_df))"

text \<open>The body of the loop, for one item of the dictionary.\<close>

fun filter_item :: "dataframe \<Rightarrow> string \<times> condition \<Rightarrow> exn + dataframe" where
  "filter_item filtered_df (column, condition) =
     (if column \<in> set (columns filtered_df) then
        (case condition of
           Range mn mx \<Rightarrow>
             bind_exn (case mn of None \<Rightarrow> Inr filtered_df
                       | Some a \<Rightarrow> filter_ge filtered_df column a) (\<lambda>filtered_df.
               (case mx of None \<Rightarrow> Inr filtered_df
                | Some b \<Rightarrow> filter_le filtered_df column b))
         | Values cs \<Rightarrow> filter_isin filtered_df column cs
         | Value c \<Rightarrow> filter_eq filtered_df column c)
      else Inr filtered_df)"

fun filter_loop :: "dataframe \<Rightarrow> (string \<times> condition) list \<Rightarrow> exn + dataframe" where
  "filter_loop filtered_df [] = Inr filtered_df"
| "filter_loop filtered_df (item # items) =
     bind_exn (filter_item filtered_df item) (\<lambda>filtered_df. filter_loop filtered_df items)"

definition filter_data :: "DataProcessor \<Rightarrow> (string \<times> condition) list \<Rightarrow> exn + dataframe" where
  "filter_data self conditions = filter_loop (copy (dp_df self)) conditions"

subsection \<open>\<open>group_analysis\<close>\<close>

definition group_analysis ::
  "env \<Rightarrow> DataProcessor \<Rightarrow> string \<Rightarrow> string \<Rightarrow> string \<Rightarrow> exn + dataframe" where
  "group_analysis E self group_by_col agg_col agg_func =
     (if group_by_col \<notin> set (columns (dp_df self)) \<or> agg_col \<notin> set (columns (dp_df self))
      then Inl (Exn ''ValueError'' ''Specified columns not found in dataframe'')
      else groupby_agg E (dp_df self) group_by_col agg_col agg_func)"

section \<open>\<open>query_processor.py\<close>\<close>

text \<open>
  The dictionary \<open>process_query\<close> returns: \<open>{'success': True, 'data', 'explanation',
  'code'}\<close> or \<open>{'success': False, 'error'}\<close>. The methods keep their names without the
  leading underscore.
\<close>

datatype result_data =
    Frame dataframe
  | ColumnInfo "column_info list"
  | MissingReport "missing_row list"
  | Text string
  | Names "string list"
  | PyResult pyobj

datatype outcome =
    Success (data_of: result_data) (explanation: string) (code_of: string)
  | Failure (error: string)

fun success :: "outcome \<Rightarrow> bool" where
  "success (Success d e c) = True"
| "success (Failure m) = False"

record QueryProcessor =
  qp_df :: dataframe
  data_processor :: DataProcessor

definition QueryProcessor_init :: "dataframe \<Rightarrow> QueryProcessor" where
  "QueryProcessor_init dataframe =
     \<lparr>qp_df = dataframe, data_processor = DataProcessor_init dataframe\<rparr>"

subsection \<open>\<open>_extract_number\<close>\<close>

definition extract_number :: "string \<Rightarrow> nat \<Rightarrow> nat" where
  "extract_number text dflt =
     (case findall_digits text of [] \<Rightarrow> dflt | n # ns \<Rightarrow> int_of_digits n)"

subsection \<open>\<open>_process_simple_query\<close>\<close>

text \<open>The tests of the seven rules on the normalised text, in the order of the source.\<close>

definition rule_top :: "string \<Rightarrow> bool" where
  "rule_top query_lower =
     (str_in ''top'' query_lower \<and> any_in [''rows'', ''records'', ''entries''] query_lower)"

definition rule_info :: "string \<Rightarrow> bool" where
  "rule_info query_lower = any_in [''info'', ''information'', ''overview'', ''summary''] query_lower"

definition rule_stats :: "string \<Rightarrow> bool" where
  "rule_stats query_lower = any_in [''statistics'', ''stats'', ''describe'', ''summary''] query_lower"

definition rule_count :: "string \<Rightarrow> bool" where
  "rule_count query_lower = any_in [''count'', ''number of rows'', ''how many rows''] query_lower"

definition rule_columns :: "string \<Rightarrow> bool" where
  "rule_columns query_lower = any_in [''columns'', ''column names'', ''fields''] query_lower"

definition rule_missing :: "string \<Rightarrow> bool" where
  "rule_missing query_lower = any_in [''missing'', ''null'', ''nan'', ''empty''] query_lower"

definition rule_corr :: "string \<Rightarrow> bool" where
  "rule_corr query_lower = (str_in ''correlation'' query_lower \<or> str_in ''corr'' query_lower)"

definition process_simple_query :: "env \<Rightarrow> QueryProcessor \<Rightarrow> string \<Rightarrow> exn + outcome" where
  "process_simple_query E self query =
     (let query_lower = strip (lower query) in
      if rule_top query_lower then
        (let n = extract_number query 10
         in Inr (Success (Frame (head n (qp_df self)))
                   (''Showing top '' @ str_nat n @ '' rows from the dataset'')
                   (''df.head('' @ str_nat n @ '')'')))
      else if rule_info query_lower then
        Inr (Success (ColumnInfo (get_column_info E (data_processor self)))
               ''Dataset overview and column information''
               ''df.info()'')
      else if rule_stats query_lower then
        bind_exn (describe E (qp_df self)) (\<lambda>d.
          Inr (Success (Frame d)
                 ''Statistical summary of numeric columns''
                 ''df.describe()''))
      else if rule_count query_lower then
        (let count = len (qp_df self)
         in Inr (Success (Text (''Total rows: '' @ group_thousands count))
                   (''The dataset contains '' @ group_thousands count @ '' rows'')
                   ''len(df)''))
      else if rule_columns query_lower then
        Inr (Success (Names (columns (qp_df self)))
               ''List of all columns in the dataset''
               ''df.columns.tolist()'')
      else if rule_missing query_lower then
        (let missing_data = analyze_missing_data (data_processor self)
         in Inr (Success (if missing_data \<noteq> [] then MissingReport missing_data
                          else Text ''No missing values found!'')
                   ''Analysis of missing values in the dataset''
                   ''df.isnull().sum()''))
      else if rule_corr query_lower then
        (let corr_data = correlation_analysis E (data_processor self)
         in Inr (Success (Frame corr_data)
                   ''Correlation matrix for numeric columns''
                   ''df.corr()''))
      else Inr (Failure ''Query not recognized''))"

subsection \<open>\<open>_create_dataset_context\<close>, \<open>_create_analysis_prompt\<close>\<close>

definition nl :: string where
  "nl = [CHR 0x0A]"

definition create_dataset_context :: "env \<Rightarrow> QueryProcessor \<Rightarrow> string" where
  "create_dataset_context E self =
     nl @ ''        Dataset Information:'' @ nl @
     ''        - Shape: '' @ str_nat (len (qp_df self)) @ '' rows, '' @
       str_nat (length (columns (qp_df self))) @ '' columns'' @ nl @
     ''        - Columns: '' @ join '', '' (columns (qp_df self)) @ nl @
     ''        - Data types: '' @ repr_dtypes E (qp_df self) @ nl @
     ''        - Memory usage: '' @ fmt_memory_mb E (qp_df self) @ '' MB'' @ nl @
     ''        '' @
     nl @ ''First 3 rows:'' @ nl @ to_string E (head 3 (qp_df self))"

definition create_analysis_prompt :: "string \<Rightarrow> string \<Rightarrow> string" where
  "create_analysis_prompt query context =
     nl @ ''        '' @ context @ nl @
     ''        '' @ nl @
     ''        User Query: '' @ query @ nl @
     ''        '' @ nl @
     ''        Please provide Python pandas code to answer this query. '' @
       ''The dataframe is available as '' @ [CHR 0x27] @ ''df'' @ [CHR 0x27] @ ''.'' @ nl @
     ''        Only return the executable code, wrapped in ```python code blocks.'' @ nl @
     ''        Make sure the code is safe and only uses pandas operations.'' @ nl @
     ''        ''"

subsection \<open>\<open>_extract_code_from_response\<close>\<close>

text \<open>
  \<open>find_first sub acc s\<close>: the text before and the text after the first occurrence of
  \<open>sub\<close> in \<open>s\<close> (\<open>acc\<close> is the text already passed, reversed).
\<close>

fun find_first :: "string \<Rightarrow> string \<Rightarrow> string \<Rightarrow> (string \<times> string) option" where
  "find_first sub acc [] = (if sub = [] then Some (rev acc, []) else None)"
| "find_first sub acc (c # cs) =
     (if starts_with sub (c # cs) then Some (rev acc, drop (length sub) (c # cs))
      else find_first sub (c # acc) cs)"

text \<open>
  \<open>re.search(r'```python\n(.*?)\n```', response, re.DOTALL)\<close>: the match starts at the first
  opening fence, and the group ends before the first closing fence after it.
\<close>

definition search_code_block :: "string \<Rightarrow> string option" where
  "search_code_block response =
     (case find_first (''```python'' @ nl) [] response of
        None \<Rightarrow> None
      | Some (before, rest) \<Rightarrow>
          (case find_first (nl @ ''```'') [] rest of
             None \<Rightarrow> None
           | Some (group1, after) \<Rightarrow> Some group1))"

definition extract_code_from_response :: "string \<Rightarrow> string option" where
  "extract_code_from_response response =
     (case search_code_block response of
        Some group1 \<Rightarrow> Some (strip group1)
      | None \<Rightarrow>
          (let lines = split_nl response;
               code_lines = filter (\<lambda>line. str_in ''df.'' line \<or>
                                            any_in [''import'', ''print'', ''=''] line) lines
           in if code_lines \<noteq> [] then Some (join nl code_lines) else None))"

subsection \<open>\<open>_execute_pandas_code\<close>\<close>

definition safe_dict :: scope where
  "safe_dict =
     [(''df'', DfRef),
      (''pd'', ModuleObj ''pandas''),
      (''len'', BuiltinObj ''len''),
      (''sum'', BuiltinObj ''sum''),
      (''max'', BuiltinObj ''max''),
      (''min'', BuiltinObj ''min''),
      (''round'', BuiltinObj ''round'')]"

text \<open>
  \<open>for var_name in [...]: if var_name in safe_dict: return safe_dict[var_name]\<close>
\<close>

fun first_bound :: "string list \<Rightarrow> scope \<Rightarrow> pyobj option" where
  "first_bound [] sc = None"
| "first_bound (var_name # rest) sc =
     (case map_of sc var_name of Some v \<Rightarrow> Some v | None \<Rightarrow> first_bound rest sc)"

definition code_execution_error :: "exn \<Rightarrow> exn" where
  "code_execution_error e = Exn ''Exception'' (''Code execution error: '' @ exn_str e)"

text \<open>
  The result, or the exception re-raised by the handler, and the content of \<open>self.df\<close>
  after the fragment has run.
\<close>

definition execute_pandas_code ::
  "env \<Rightarrow> QueryProcessor \<Rightarrow> string \<Rightarrow> (exn + pyobj) \<times> dataframe" where
  "execute_pandas_code E self code =
     (case py_exec E code safe_dict (qp_df self) of
        (Inl e, frame) \<Rightarrow> (Inl (code_execution_error e), frame)
      | (Inr globals, frame) \<Rightarrow>
          (case first_bound [''result'', ''output'', ''answer''] globals of
             Some v \<Rightarrow> (Inr v, frame)
           | None \<Rightarrow>
               (case py_eval E (last (split_nl code)) globals frame of
                  (Inl e, frame') \<Rightarrow> (Inl (code_execution_error e), frame')
                | (Inr v, frame') \<Rightarrow> (Inr v, frame'))))"

subsection \<open>\<open>_process_ai_query\<close>\<close>

definition system_content :: string where
  "system_content =
     ''You are a data analysis expert. Generate Python pandas code to answer user queries about their dataset.''"

definition process_ai_query ::
  "env \<Rightarrow> QueryProcessor \<Rightarrow> string \<Rightarrow> (exn + outcome) \<times> dataframe" where
  "process_ai_query E self query =
     try_except_st
       (let context = create_dataset_context E self;
            prompt = create_analysis_prompt query context
        in case ChatCompletion_create E MODEL_NAME
                  [(''system'', system_content), (''user'', prompt)] MAX_TOKENS TEMPERATURE of
             Inl e \<Rightarrow> (Inl e, qp_df self)
           | Inr content \<Rightarrow>
               (case extract_code_from_response content of
                  None \<Rightarrow>
                    (Inr (Failure ''Could not generate valid code from the query''), qp_df self)
                | Some code \<Rightarrow>
                    if code \<noteq> [] then
                      (case execute_pandas_code E self code of
                         (Inl e, frame) \<Rightarrow> (Inl e, frame)
                       | (Inr result, frame) \<Rightarrow>
                           (Inr (Success (PyResult result) content code), frame))
                    else
                      (Inr (Failure ''Could not generate valid code from the query''),
                       qp_df self)))
       (\<lambda>e. Inr (Failure (''AI processing error: '' @ exn_str e)))"

subsection \<open>\<open>process_query\<close>\<close>

definition process_query ::
  "env \<Rightarrow> QueryProcessor \<Rightarrow> string \<Rightarrow> (exn + outcome) \<times> QueryProcessor" where
  "process_query E self query =
     (let body =
            try_except_st
              (case process_simple_query E self query of
                 Inl e \<Rightarrow> (Inl e, qp_df self)
               | Inr result \<Rightarrow>
                   if success result then (Inr result, qp_df self)
                   else if key_configured E then process_ai_query E self query
                   else (Inr (Failure
                           ''Complex queries require OpenAI API key. Please configure it in your environment.''),
                         qp_df self))
              (\<lambda>e. Inr (Failure (''Error processing query: '' @ exn_str e)))
      in (fst body, self\<lparr>qp_df := snd body\<rparr>))"

section \<open>The data processor as an object\<close>

text \<open>
  The same methods with frames as objects: a store lists the frame objects ever created,
  an address is a position in it, and nothing is ever removed. \<open>alloc\<close> is the creation
  of a frame object, which every pandas operation that returns a frame performs
  (\<open>copy()\<close>, \<open>df[mask]\<close>, \<open>select_dtypes\<close>, \<open>corr\<close>, \<open>groupby(...).agg(...).reset_index()\<close>).
  A \<open>DataProcessor\<close> object holds the addresses of its two frames. Each method returns
  its result and the store afterwards; \<open>extends s s'\<close> says that \<open>s'\<close> is \<open>s\<close> with
  objects added at the end, every object of \<open>s\<close> as it was.
\<close>

type_synonym addr = nat
type_synonym store = "dataframe list"

definition alloc :: "dataframe \<Rightarrow> store \<Rightarrow> addr \<times> store" where
  "alloc f s = (length s, s @ [f])"

definition extends :: "store \<Rightarrow> store \<Rightarrow> bool" where
  "extends s s' = (take (length s) s' = s)"

record DataProcessor_obj =
  ref_df :: addr
  ref_original_df :: addr

definition DataProcessor_new :: "addr \<Rightarrow> store \<Rightarrow> DataProcessor_obj \<times> store" where
  "DataProcessor_new dataframe s =
     (let (a, s1) = alloc (copy (s ! dataframe)) s;
          (b, s2) = alloc (copy (s1 ! dataframe)) s1
      in (\<lparr>ref_df = a, ref_original_df = b\<rparr>, s2))"

text \<open>The frames a data processor object holds, and that it holds frames of the store.\<close>

definition contents :: "DataProcessor_obj \<Rightarrow> store \<Rightarrow> DataProcessor" where
  "contents self s = \<lparr>dp_df = s ! ref_df self, dp_original_df = s ! ref_original_df self\<rparr>"

definition valid :: "DataProcessor_obj \<Rightarrow> store \<Rightarrow> bool" where
  "valid self s = (ref_df self < length s \<and> ref_original_df self < length s)"

text \<open>
  The table of \<open>get_column_info\<close> and the report of \<open>analyze_missing_data\<close> are returned as
  values; the other three methods return the address of a frame.
\<close>

definition get_column_info_obj ::
  "env \<Rightarrow> DataProcessor_obj \<Rightarrow> store \<Rightarrow> column_info list \<times> store" where
  "get_column_info_obj E self s = (map (column_entry E) (data (s ! ref_df self)), s)"

definition analyze_missing_data_obj ::
  "DataProcessor_obj \<Rightarrow> store \<Rightarrow> missing_row list \<times> store" where
  "analyze_missing_data_obj self s =
     (let missing_data = filter (\<lambda>(c, n). 0 < n) (isnull_sum (s ! ref_df self))
      in if missing_data = [] then ([], s)
         else (sort_values_desc
                 (map (\<lambda>(c, n).
                        \<lparr>Missing_Column = c,
                         Missing_Count = n,
                         Missing_Percentage = round2 (real n / real (len (s ! ref_df self)) * 100)\<rparr>)
                      missing_data), s))"

definition correlation_analysis_obj ::
  "env \<Rightarrow> DataProcessor_obj \<Rightarrow> store \<Rightarrow> addr \<times> store" where
  "correlation_analysis_obj E self s =
     (let (numeric_df, s1) = alloc (select_dtypes_number (s ! ref_df self)) s
      in alloc (corr E (s1 ! numeric_df)) s1)"

text \<open>
  \<open>filtered_df = filtered_df[mask]\<close>, the mask computed from the frame itself: a new object
  when the mask is computed, the store as it was when computing it raises.
\<close>

definition index_by ::
  "(dataframe \<Rightarrow> exn + bool list) \<Rightarrow> addr \<Rightarrow> store \<Rightarrow> (exn + addr) \<times> store" where
  "index_by mk filtered_df s =
     (case mk (s ! filtered_df) of
        Inl e \<Rightarrow> (Inl e, s)
      | Inr m \<Rightarrow> (let (a, s') = alloc (select_rows m (s ! filtered_df)) s in (Inr a, s')))"

definition mask_ge :: "string \<Rightarrow> cell \<Rightarrow> dataframe \<Rightarrow> exn + bool list" where
  "mask_ge column a f = bind_exn (getitem f column) (\<lambda>ser. series_ge ser a)"

definition mask_le :: "string \<Rightarrow> cell \<Rightarrow> dataframe \<Rightarrow> exn + bool list" where
  "mask_le column b f = bind_exn (getitem f column) (\<lambda>ser. series_le ser b)"

definition mask_isin :: "string \<Rightarrow> cell list \<Rightarrow> dataframe \<Rightarrow> exn + bool list" where
  "mask_isin column cs f = bind_exn (getitem f column) (\<lambda>ser. Inr (isin ser cs))"

definition mask_eq :: "string \<Rightarrow> cell \<Rightarrow> dataframe \<Rightarrow> exn + bool list" where
  "mask_eq column c f = bind_exn (getitem f column) (\<lambda>ser. Inr (series_eq ser c))"

fun filter_item_obj :: "addr \<Rightarrow> string \<times> condition \<Rightarrow> store \<Rightarrow> (exn + addr) \<times> store" where
  "filter_item_obj filtered_df (column, condition) s =
     (if column \<in> set (columns (s ! filtered_df)) then
        (case condition of
           Range mn mx \<Rightarrow>
             (case (case mn of None \<Rightarrow> (Inr filtered_df, s)
                    | Some a \<Rightarrow> index_by (mask_ge column a) filtered_df s) of
                (Inl e, s1) \<Rightarrow> (Inl e, s1)
              | (Inr filtered_df, s1) \<Rightarrow>
                  (case mx of None \<Rightarrow> (Inr filtered_df, s1)
                   | Some b \<Rightarrow> index_by (mask_le column b) filtered_df s1))
         | Values cs \<Rightarrow> index_by (mask_isin column cs) filtered_df s
         | Value c \<Rightarrow> index_by (mask_eq column c) filtered_df s)
      else (Inr filtered_df, s))"

fun filter_loop_obj ::
  "addr \<Rightarrow> (string \<times> condition) list \<Rightarrow> store \<Rightarrow> (exn + addr) \<times> store" where
  "filter_loop_obj filtered_df [] s = (Inr filtered_df, s)"
| "filter_loop_obj filtered_df (item # items) s =
     (case filter_item_obj filtered_df item s of
        (Inl e, s1) \<Rightarrow> (Inl e, s1)
      | (Inr filtered_df, s1) \<Rightarrow> filter_loop_obj filtered_df items s1)"

definition filter_data_obj ::
  "DataProcessor_obj \<Rightarrow> (string \<times> condition) list \<Rightarrow> store \<Rightarrow> (exn + addr) \<times> store" where
  "filter_data_obj self conditions s =
     (let (filtered_df, s0) = alloc (copy (s ! ref_df self)) s
      in filter_loop_obj filtered_df conditions s0)"

definition group_analysis_obj ::
  "env \<Rightarrow> DataProcessor_obj \<Rightarrow> string \<Rightarrow> string \<Rightarrow> string \<Rightarrow> store \<Rightarrow> (exn + addr) \<times> store" where
  "group_analysis_obj E self group_by_col agg_col agg_func s =
     (if group_by_col \<notin> set (columns (s ! ref_df self)) \<or> agg_col \<notin> set (columns (s ! ref_df self))
      then (Inl (Exn ''ValueError'' ''Specified columns not found in dataframe''), s)
      else (case groupby_agg E (s ! ref_df self) group_by_col agg_col agg_func of
              Inl e \<Rightarrow> (Inl e, s)
            | Inr grouped \<Rightarrow> (let (a, s') = alloc grouped s in (Inr a, s'))))"

text \<open>
  What a step starting from the frame at \<open>cur\<close> has to satisfy for a function \<open>g\<close> on frame
  values: the store is extended, an exception is the exception of \<open>g\<close>, and a returned
  address is \<open>cur\<close> itself or a new object, and holds the frame \<open>g\<close> returns.
\<close>

definition step_ok :: "(dataframe \<Rightarrow> exn + dataframe) \<Rightarrow> addr \<Rightarrow> store \<Rightarrow> (exn + addr) \<times> store \<Rightarrow> bool" where
  "step_ok g cur s r =
     (extends s (snd r) \<and>
      (case fst r of
         Inl e \<Rightarrow> g (s ! cur) = Inl e
       | Inr c \<Rightarrow> c < length (snd r) \<and> (c = cur \<or> length s \<le> c) \<and> g (s ! cur) = Inr (snd r ! c)))"

section \<open>The notions of the specification\<close>


text \<open>
  The order the range condition of the specification speaks of: numbers by value, text
  by code point, nothing across the two and nothing with a missing value. A column and a
  bound are comparable when Python compares every value of the column with the bound
  without raising.
\<close>

fun leq :: "cell \<Rightarrow> cell \<Rightarrow> bool" where
  "leq (NumV x) (NumV y) = (x \<le> y)"
| "leq (StrV s) (StrV t) = (s \<le> t)"
| "leq v w = False"

definition in_range :: "cell \<Rightarrow> cell \<Rightarrow> cell \<Rightarrow> bool" where
  "in_range a b v = (leq a v \<and> leq v b)"

fun same_kind :: "cell \<Rightarrow> cell \<Rightarrow> bool" where
  "same_kind (NumV x) (StrV s) = False"
| "same_kind (StrV s) (NumV x) = False"
| "same_kind v w = True"

definition comparable :: "series \<Rightarrow> cell \<Rightarrow> bool" where
  "comparable s a = ((fst s = Object \<or> \<not> is_text a) \<and> list_all (\<lambda>v. same_kind v a) (snd s))"

text \<open>
  The union of two condition dictionaries, as \<open>{**d1, **d2}\<close> builds it: the items of \<open>d1\<close>
  in their order, a key of \<open>d2\<close> replacing the value in place or added at the end.
\<close>

fun dict_set :: "'k \<Rightarrow> 'v \<Rightarrow> ('k \<times> 'v) list \<Rightarrow> ('k \<times> 'v) list" where
  "dict_set k v [] = [(k, v)]"
| "dict_set k v ((k', v') # d) = (if k' = k then (k, v) # d else (k', v') # dict_set k v d)"

definition dict_union :: "('k \<times> 'v) list \<Rightarrow> ('k \<times> 'v) list \<Rightarrow> ('k \<times> 'v) list" where
  "dict_union d1 d2 = foldl (\<lambda>d kv. dict_set (fst kv) (snd kv) d) d1 d2"


section \<open>Example inputs\<close>

text \<open>
  A small staff table with missing values, a table with a single numeric column, and three
  environments: one without an API key, one with a key whose service answers with a
  fenced fragment that the interpreter rejects with a syntax error, and one with a key
  whose service answers with a single line that runs and whose evaluation then fails.
\<close>

definition staff :: dataframe where
  "staff =
     \<lparr>index = [NumV 0, NumV 1, NumV 2, NumV 3],
      data = [(''id'', (Int64, [NumV 1, NumV 2, NumV 3, NumV 4])),
              (''age'', (Float64, [NumV 30, Null, NumV 50, NumV 41])),
              (''dept'', (Object, [StrV ''Sales'', StrV ''Engineering'', Null, StrV ''Sales'']))]\<rparr>"

definition readings :: dataframe where
  "readings =
     \<lparr>index = [NumV 0, NumV 1, NumV 2],
      data = [(''x'', (Int64, [NumV 1, NumV 2, NumV 3]))]\<rparr>"

definition offline_env :: env where
  "offline_env =
     \<lparr>OPENAI_API_KEY = None,
      ChatCompletion_create = (\<lambda>model messages max_tokens temperature.
         Inl (Exn ''AuthenticationError'' ''No API key provided'')),
      py_exec = (\<lambda>code globals frame. (Inr globals, frame)),
      py_eval = (\<lambda>expr globals frame. (Inr NoneObj, frame)),
      describe = (\<lambda>df. if data df = []
         then Inl (Exn ''ValueError'' ''Cannot describe a DataFrame without columns'')
         else Inr df),
      pearson = (\<lambda>xs ys. if xs = ys then NumV 1 else Null),
      groupby_agg = (\<lambda>df by col func. Inr (head 1 df)),
      memory_usage = (\<lambda>s. 128 + 8 * real (length (snd s))),
      str_num = (\<lambda>x. ''0''),
      repr_dtypes = (\<lambda>df. ''{}''),
      fmt_memory_mb = (\<lambda>df. ''0.0''),
      to_string = (\<lambda>df. ''Empty DataFrame'')\<rparr>"



section \<open>Auxiliary facts\<close>

subsection \<open>Strings and rules\<close>

lemma any_inI: "word \<in> set words \<Longrightarrow> str_in word s \<Longrightarrow> any_in words s"
  by (auto simp: any_in_def list_ex_iff)





subsection \<open>Frames\<close>




lemma columns_corr: "columns (corr E df) = columns df"
  by (simp add: corr_def columns_def case_prod_beta comp_def)

lemma len_corr: "len (corr E df) = length (columns df)"
  by (simp add: corr_def len_def)

lemma corr_square:
  "cs \<in> set (data (corr E df)) \<Longrightarrow> length (snd (snd cs)) = length (columns df)"
  by (auto simp: corr_def columns_def case_prod_beta)

subsection \<open>The missing-value report\<close>









subsection \<open>Filters\<close>

lemma dict_set_new: "k \<notin> fst ` set d \<Longrightarrow> dict_set k v d = d @ [(k, v)]"
  by (induction d) auto

lemma dict_union_disjoint:
  "distinct (map fst d2) \<Longrightarrow> fst ` set d1 \<inter> fst ` set d2 = {} \<Longrightarrow> dict_union d1 d2 = d1 @ d2"
proof (induction d2 arbitrary: d1)
  case Nil
  then show ?case by (simp add: dict_union_def)
next
  case (Cons kv d2)
  have new: "fst kv \<notin> fst ` set d1"
    using Cons.prems(2) by auto
  have "dict_union d1 (kv # d2) = dict_union (d1 @ [kv]) d2"
    using dict_set_new [OF new, of "snd kv"] by (simp add: dict_union_def)
  also have "\<dots> = (d1 @ [kv]) @ d2"
  proof (rule Cons.IH)
    show "distinct (map fst d2)" using Cons.prems(1) by simp
    show "fst ` set (d1 @ [kv]) \<inter> fst ` set d2 = {}"
      using Cons.prems by auto
  qed
  finally show ?case by simp
qed

lemma columns_select_rows: "columns (select_rows m df) = columns df"
  by (simp add: columns_def select_rows_def case_prod_beta comp_def)

lemma map_of_select_rows:
  "map_of (data (select_rows m df)) c = map_option (\<lambda>s. (fst s, select m (snd s))) (map_of (data df) c)"
proof -
  have "map_of (map (\<lambda>(c, (t, vs)). (c, (t, select m vs))) xs) c
          = map_option (\<lambda>s. (fst s, select m (snd s))) (map_of xs c)" for xs :: "(string \<times> series) list"
    by (induction xs) auto
  then show ?thesis by (simp add: select_rows_def)
qed

lemma getitem_Some: "map_of (data df) c = Some s \<Longrightarrow> getitem df c = Inr s"
  by (simp add: getitem_def)

lemma map_of_columns: "map_of (data df) c = Some s \<Longrightarrow> c \<in> set (columns df)"
  by (auto simp: columns_def dest: map_of_SomeD intro: rev_image_eqI)

lemma select_select:
  "select (map q (select (map p vs) vs)) (select (map p vs) ys) = select (map (\<lambda>v. p v \<and> q v) vs) ys"
proof (induction vs arbitrary: ys)
  case Nil
  then show ?case by (simp add: select_def)
next
  case (Cons v vs)
  show ?case
  proof (cases ys)
    case Nil
    then show ?thesis by (simp add: select_def)
  next
    case (Cons y ys')
    with Cons.IH [of ys'] show ?thesis by (simp add: select_def)
  qed
qed

lemma select_rows_select_rows:
  "select_rows (map q (select (map p vs) vs)) (select_rows (map p vs) df)
     = select_rows (map (\<lambda>v. p v \<and> q v) vs) df"
  by (simp add: select_rows_def select_select case_prod_beta comp_def)

lemma set_select: "set (select m xs) \<subseteq> set xs"
  by (auto simp: select_def dest: set_zip_rightD)

lemma map_exn_total: "(\<And>v. v \<in> set vs \<Longrightarrow> f v = Inr (g v)) \<Longrightarrow> map_exn f vs = Inr (map g vs)"
  by (induction vs) auto

lemma cell_ge_leq: "same_kind v a \<Longrightarrow> cell_ge v a = Inr (leq a v)"
  by (cases v; cases a) simp_all

lemma cell_le_leq: "same_kind v b \<Longrightarrow> cell_le v b = Inr (leq v b)"
  by (cases v; cases b) simp_all

lemma series_ge_comparable:
  "comparable (t, vs) a \<Longrightarrow> series_ge (t, vs) a = Inr (map (leq a) vs)"
  by (auto simp: comparable_def series_ge_def list_all_iff cell_ge_leq intro!: map_exn_total)

lemma series_le_comparable:
  "comparable (t, vs) b \<Longrightarrow> series_le (t, vs) b = Inr (map (\<lambda>v. leq v b) vs)"
  by (auto simp: comparable_def series_le_def list_all_iff cell_le_leq intro!: map_exn_total)

lemma comparable_select: "comparable (t, vs) b \<Longrightarrow> comparable (t, select m vs) b"
  using set_select [of m vs] by (auto simp: comparable_def list_all_iff)

lemma filter_range:
  assumes col: "map_of (data df) col = Some (t, vs)"
    and a: "comparable (t, vs) a" and b: "comparable (t, vs) b"
  shows "filter_item df (col, Range (Some a) (Some b)) = Inr (select_rows (map (in_range a b) vs) df)"
proof -
  let ?m = "map (leq a) vs"
  have 1: "filter_ge df col a = Inr (select_rows ?m df)"
    by (simp add: filter_ge_def getitem_Some [OF col] series_ge_comparable [OF a] bind_exn_def)
  have "map_of (data (select_rows ?m df)) col = Some (t, select ?m vs)"
    by (simp add: map_of_select_rows col)
  then have "getitem (select_rows ?m df) col = Inr (t, select ?m vs)"
    by (rule getitem_Some)
  then have 2: "filter_le (select_rows ?m df) col b
        = Inr (select_rows (map (\<lambda>v. leq v b) (select ?m vs)) (select_rows ?m df))"
    by (simp add: filter_le_def series_le_comparable [OF comparable_select [OF b]] bind_exn_def)
  have "filter_item df (col, Range (Some a) (Some b))
          = Inr (select_rows (map (\<lambda>v. leq v b) (select ?m vs)) (select_rows ?m df))"
    using map_of_columns [OF col] by (simp add: 1 2 bind_exn_def)
  also have "select_rows (map (\<lambda>v. leq v b) (select ?m vs)) (select_rows ?m df)
          = select_rows (map (\<lambda>v. leq a v \<and> leq v b) vs) df"
    by (rule select_rows_select_rows)
  finally show ?thesis
    by (simp add: in_range_def [abs_def])
qed

lemma filter_loop_append:
  "filter_loop df (c1 @ c2) = bind_exn (filter_loop df c1) (\<lambda>d. filter_loop d c2)"
proof (induction c1 arbitrary: df)
  case Nil
  then show ?case by (simp add: bind_exn_def)
next
  case (Cons item c1)
  then show ?case
    by (cases "filter_item df item") (simp_all add: bind_exn_def)
qed

lemma filter_ge_columns: "filter_ge df c a = Inr df' \<Longrightarrow> columns df' = columns df"
  by (auto simp: filter_ge_def bind_exn_def columns_select_rows split: sum.splits)

lemma filter_le_columns: "filter_le df c a = Inr df' \<Longrightarrow> columns df' = columns df"
  by (auto simp: filter_le_def bind_exn_def columns_select_rows split: sum.splits)

lemma filter_item_columns:
  assumes "filter_item df item = Inr df'"
  shows "columns df' = columns df"
proof (cases item)
  case (Pair column condition)
  show ?thesis
  proof (cases "column \<in> set (columns df)")
    case False
    with assms Pair show ?thesis by simp
  next
    case True
    show ?thesis
    proof (cases condition)
      case (Range mn mx)
      with assms Pair True show ?thesis
        by (auto simp: bind_exn_def split: sum.splits option.splits)
           (metis filter_ge_columns filter_le_columns)+
    next
      case (Values cs)
      with assms Pair True show ?thesis
        by (auto simp: filter_isin_def bind_exn_def columns_select_rows split: sum.splits)
    next
      case (Value c)
      with assms Pair True show ?thesis
        by (auto simp: filter_eq_def bind_exn_def columns_select_rows split: sum.splits)
    qed
  qed
qed

lemma filter_loop_known:
  "columns df = cols \<Longrightarrow>
   filter_loop df conditions = filter_loop df (filter (\<lambda>item. fst item \<in> set cols) conditions)"
proof (induction conditions arbitrary: df)
  case Nil
  then show ?case by simp
next
  case (Cons item conditions)
  obtain column condition where item: "item = (column, condition)"
    by (cases item)
  show ?case
  proof (cases "column \<in> set cols")
    case False
    with Cons item show ?thesis by (simp add: bind_exn_def)
  next
    case True
    show ?thesis
    proof (cases "filter_item df item")
      case (Inl e)
      with True item show ?thesis by (simp add: bind_exn_def)
    next
      case (Inr df')
      then have "columns df' = cols"
        using filter_item_columns Cons.prems by simp
      then have "filter_loop df' conditions
                   = filter_loop df' (filter (\<lambda>item. fst item \<in> set cols) conditions)"
        by (rule Cons.IH)
      with Inr True item show ?thesis by (simp add: bind_exn_def)
    qed
  qed
qed

lemma filter_loop_unknown:
  "\<forall>item\<in>set conditions. fst item \<notin> set (columns df) \<Longrightarrow> filter_loop df conditions = Inr df"
  by (induction conditions) (auto simp: bind_exn_def)

subsection \<open>The store\<close>

lemma extends_refl: "extends s s"
  by (simp add: extends_def)

lemma extends_alloc: "extends s (snd (alloc f s))"
  by (simp add: extends_def alloc_def)

lemma extends_append: "extends s (s @ t)"
  by (simp add: extends_def)

lemma extends_trans: "extends s1 s2 \<Longrightarrow> extends s2 s3 \<Longrightarrow> extends s1 s3"
  unfolding extends_def
  by (metis append_eq_conv_conj append.assoc)

lemma extends_nth: "extends s s' \<Longrightarrow> a < length s \<Longrightarrow> s' ! a = s ! a"
  unfolding extends_def by (metis nth_take)

lemma extends_length: "extends s s' \<Longrightarrow> length s \<le> length s'"
  unfolding extends_def by (metis length_take min.cobounded2 min_def nat_le_linear)

lemma index_by_ok:
  assumes "cur < length s"
  shows "step_ok (\<lambda>f. bind_exn (mk f) (\<lambda>m. Inr (select_rows m f))) cur s (index_by mk cur s)"
  using assms
  by (cases "mk (s ! cur)")
     (simp_all add: step_ok_def index_by_def alloc_def bind_exn_def extends_refl extends_append)

lemma step_ok_id: "cur < length s \<Longrightarrow> step_ok Inr cur s (Inr cur, s)"
  by (simp add: step_ok_def extends_refl)

lemma step_ok_seq:
  assumes cur: "cur < length s"
    and 1: "step_ok g1 cur s r1"
    and 2: "\<And>c s1. r1 = (Inr c, s1) \<Longrightarrow> c < length s1 \<Longrightarrow> step_ok g2 c s1 (k c s1)"
  shows "step_ok (\<lambda>f. bind_exn (g1 f) g2) cur s
           (case r1 of (Inl e, s1) \<Rightarrow> (Inl e, s1) | (Inr c, s1) \<Rightarrow> k c s1)"
proof (cases r1)
  case (Pair x s1)
  show ?thesis
  proof (cases x)
    case (Inl e)
    with Pair 1 show ?thesis by (simp add: step_ok_def bind_exn_def)
  next
    case (Inr c)
    with Pair 1 have c: "c < length s1" and e1: "extends s s1" and g1: "g1 (s ! cur) = Inr (s1 ! c)"
      and fresh: "c = cur \<or> length s \<le> c"
      by (simp_all add: step_ok_def)
    have k: "step_ok g2 c s1 (k c s1)"
      using 2 Pair Inr c by simp
    then have e2: "extends s1 (snd (k c s1))"
      by (simp add: step_ok_def)
    have e: "extends s (snd (k c s1))"
      using e1 e2 by (rule extends_trans)
    show ?thesis
    proof (cases "fst (k c s1)")
      case (Inl e')
      with k have "g2 (s1 ! c) = Inl e'" by (simp add: step_ok_def)
      with Pair Inr Inl e g1 show ?thesis
        by (simp add: step_ok_def bind_exn_def)
    next
      case (Inr c')
      with k have c': "c' < length (snd (k c s1))" and f': "c' = c \<or> length s1 \<le> c'"
        and g2: "g2 (s1 ! c) = Inr (snd (k c s1) ! c')"
        by (simp_all add: step_ok_def)
      have "c' = cur \<or> length s \<le> c'"
        using f' fresh extends_length [OF e1] by auto
      with Pair \<open>x = Inr c\<close> Inr e g1 g2 c' show ?thesis
        by (simp add: step_ok_def bind_exn_def)
    qed
  qed
qed


lemma filter_ge_mask: "filter_ge f column a = bind_exn (mask_ge column a f) (\<lambda>m. Inr (select_rows m f))"
  by (simp add: filter_ge_def mask_ge_def bind_exn_def split: sum.splits)

lemma filter_le_mask: "filter_le f column b = bind_exn (mask_le column b f) (\<lambda>m. Inr (select_rows m f))"
  by (simp add: filter_le_def mask_le_def bind_exn_def split: sum.splits)

lemma filter_isin_mask:
  "filter_isin f column cs = bind_exn (mask_isin column cs f) (\<lambda>m. Inr (select_rows m f))"
  by (simp add: filter_isin_def mask_isin_def bind_exn_def split: sum.splits)

lemma filter_eq_mask: "filter_eq f column c = bind_exn (mask_eq column c f) (\<lambda>m. Inr (select_rows m f))"
  by (simp add: filter_eq_def mask_eq_def bind_exn_def split: sum.splits)

lemma step_ok_cong:
  assumes "g (s ! cur) = g' (s ! cur)" and "r = r'" and "step_ok g' cur s r'"
  shows "step_ok g cur s r"
  using assms by (cases "fst r") (simp_all add: step_ok_def)

lemma lower_bound_ok:
  assumes "cur < length s"
  shows "step_ok (\<lambda>f. case mn of None \<Rightarrow> Inr f | Some a \<Rightarrow> filter_ge f column a) cur s
           (case mn of None \<Rightarrow> (Inr cur, s) | Some a \<Rightarrow> index_by (mask_ge column a) cur s)"
proof (cases mn)
  case None
  then show ?thesis using step_ok_id [OF assms] by simp
next
  case (Some a)
  then show ?thesis
    using index_by_ok [OF assms, of "mask_ge column a"]
    by (auto intro: step_ok_cong simp: filter_ge_mask)
qed

lemma upper_bound_ok:
  assumes "cur < length s"
  shows "step_ok (\<lambda>f. case mx of None \<Rightarrow> Inr f | Some b \<Rightarrow> filter_le f column b) cur s
           (case mx of None \<Rightarrow> (Inr cur, s) | Some b \<Rightarrow> index_by (mask_le column b) cur s)"
proof (cases mx)
  case None
  then show ?thesis using step_ok_id [OF assms] by simp
next
  case (Some b)
  then show ?thesis
    using index_by_ok [OF assms, of "mask_le column b"]
    by (auto intro: step_ok_cong simp: filter_le_mask)
qed

lemma filter_item_obj_ok:
  assumes cur: "cur < length s"
  shows "step_ok (\<lambda>f. filter_item f item) cur s (filter_item_obj cur item s)"
proof (cases item)
  case (Pair column condition)
  show ?thesis
  proof (cases "column \<in> set (columns (s ! cur))")
    case False
    with Pair cur show ?thesis by (simp add: step_ok_def extends_refl)
  next
    case True
    show ?thesis
    proof (cases condition)
      case (Range mn mx)
      have "step_ok
              (\<lambda>f. bind_exn (case mn of None \<Rightarrow> Inr f | Some a \<Rightarrow> filter_ge f column a)
                     (\<lambda>f. case mx of None \<Rightarrow> Inr f | Some b \<Rightarrow> filter_le f column b))
              cur s
              (case (case mn of None \<Rightarrow> (Inr cur, s) | Some a \<Rightarrow> index_by (mask_ge column a) cur s) of
                 (Inl e, s1) \<Rightarrow> (Inl e, s1)
               | (Inr c, s1) \<Rightarrow>
                   (case mx of None \<Rightarrow> (Inr c, s1) | Some b \<Rightarrow> index_by (mask_le column b) c s1))"
        using cur
      proof (rule step_ok_seq)
        show "step_ok (\<lambda>f. case mn of None \<Rightarrow> Inr f | Some a \<Rightarrow> filter_ge f column a) cur s
           (case mn of None \<Rightarrow> (Inr cur, s) | Some a \<Rightarrow> index_by (mask_ge column a) cur s)"
          using cur by (rule lower_bound_ok)
      next
        fix c and s1 :: store
        assume "c < length s1"
        then show "step_ok (\<lambda>f. case mx of None \<Rightarrow> Inr f | Some b \<Rightarrow> filter_le f column b) c s1
           (case mx of None \<Rightarrow> (Inr c, s1) | Some b \<Rightarrow> index_by (mask_le column b) c s1)"
          by (rule upper_bound_ok)
      qed
      then show ?thesis
      proof (rule step_ok_cong [rotated 2])
        show "filter_item (s ! cur) item
                = bind_exn (case mn of None \<Rightarrow> Inr (s ! cur) | Some a \<Rightarrow> filter_ge (s ! cur) column a)
                    (\<lambda>f. case mx of None \<Rightarrow> Inr f | Some b \<Rightarrow> filter_le f column b)"
          using Pair True Range by simp
        show "filter_item_obj cur item s
                = (case (case mn of None \<Rightarrow> (Inr cur, s)
                         | Some a \<Rightarrow> index_by (mask_ge column a) cur s) of
                     (Inl e, s1) \<Rightarrow> (Inl e, s1)
                   | (Inr c, s1) \<Rightarrow>
                       (case mx of None \<Rightarrow> (Inr c, s1)
                        | Some b \<Rightarrow> index_by (mask_le column b) c s1))"
          using Pair True Range by simp
      qed
    next
      case (Values cs)
      from index_by_ok [OF cur, of "mask_isin column cs"] show ?thesis
      proof (rule step_ok_cong [rotated 2])
        show "filter_item (s ! cur) item
                = bind_exn (mask_isin column cs (s ! cur)) (\<lambda>m. Inr (select_rows m (s ! cur)))"
          using Pair True Values by (simp add: filter_isin_mask)
        show "filter_item_obj cur item s = index_by (mask_isin column cs) cur s"
          using Pair True Values by simp
      qed
    next
      case (Value c)
      from index_by_ok [OF cur, of "mask_eq column c"] show ?thesis
      proof (rule step_ok_cong [rotated 2])
        show "filter_item (s ! cur) item
                = bind_exn (mask_eq column c (s ! cur)) (\<lambda>m. Inr (select_rows m (s ! cur)))"
          using Pair True Value by (simp add: filter_eq_mask)
        show "filter_item_obj cur item s = index_by (mask_eq column c) cur s"
          using Pair True Value by simp
      qed
    qed
  qed
qed

lemma filter_loop_obj_ok:
  "cur < length s \<Longrightarrow> step_ok (\<lambda>f. filter_loop f items) cur s (filter_loop_obj cur items s)"
proof (induction items arbitrary: cur s)
  case Nil
  then show ?case by (simp add: step_ok_def extends_refl)
next
  case (Cons item items)
  have "step_ok (\<lambda>f. bind_exn (filter_item f item) (\<lambda>f. filter_loop f items)) cur s
          (case filter_item_obj cur item s of
             (Inl e, s1) \<Rightarrow> (Inl e, s1)
           | (Inr c, s1) \<Rightarrow> filter_loop_obj c items s1)"
    using Cons.prems
  proof (rule step_ok_seq)
    show "step_ok (\<lambda>f. filter_item f item) cur s (filter_item_obj cur item s)"
      using Cons.prems by (rule filter_item_obj_ok)
  next
    fix c and s1 :: store
    assume "c < length s1"
    then show "step_ok (\<lambda>f. filter_loop f items) c s1 (filter_loop_obj c items s1)"
      by (rule Cons.IH)
  qed
  then show ?case
    by (rule step_ok_cong [rotated 2]) simp_all
qed

lemma filter_data_obj_ok:
  "extends s (snd (filter_data_obj self conditions s))
   \<and> (case fst (filter_data_obj self conditions s) of
         Inl e \<Rightarrow> filter_data (contents self s) conditions = Inl e
       | Inr r \<Rightarrow> length s \<le> r \<and> r < length (snd (filter_data_obj self conditions s))
                 \<and> filter_data (contents self s) conditions
                     = Inr (snd (filter_data_obj self conditions s) ! r))"
proof -
  let ?s0 = "s @ [copy (s ! ref_df self)]"
  let ?r = "filter_loop_obj (length s) conditions ?s0"
  have r: "filter_data_obj self conditions s = ?r"
    by (simp add: filter_data_obj_def alloc_def)
  have "length s < length ?s0" by simp
  then have ok: "step_ok (\<lambda>f. filter_loop f conditions) (length s) ?s0 ?r"
    by (rule filter_loop_obj_ok)
  have c: "filter_data (contents self s) conditions = filter_loop (?s0 ! length s) conditions"
    by (simp add: filter_data_def contents_def)
  have e: "extends s (snd ?r)"
    using extends_append [of s] ok extends_trans unfolding step_ok_def by blast
  show ?thesis
  proof (cases "fst ?r")
    case (Inl e')
    with ok e show ?thesis unfolding r c by (simp add: step_ok_def)
  next
    case (Inr c')
    with ok have "c' < length (snd ?r)" and "c' = length s \<or> length ?s0 \<le> c'"
      and "filter_loop (?s0 ! length s) conditions = Inr (snd ?r ! c')"
      by (simp_all add: step_ok_def)
    with Inr e show ?thesis unfolding r c by auto
  qed
qed


lemma contents_extends: "valid self s \<Longrightarrow> extends s s' \<Longrightarrow> contents self s' = contents self s"
  by (simp add: valid_def contents_def extends_nth)

lemma correlation_analysis_obj_ok:
  "extends s (snd (correlation_analysis_obj E self s))
   \<and> length s \<le> fst (correlation_analysis_obj E self s)
   \<and> fst (correlation_analysis_obj E self s) < length (snd (correlation_analysis_obj E self s))
   \<and> snd (correlation_analysis_obj E self s) ! fst (correlation_analysis_obj E self s)
       = correlation_analysis E (contents self s)"
  by (simp add: correlation_analysis_obj_def correlation_analysis_def alloc_def contents_def
        extends_def nth_append)

lemma group_analysis_obj_ok:
  "extends s (snd (group_analysis_obj E self g a f s))
   \<and> (case fst (group_analysis_obj E self g a f s) of
         Inl e \<Rightarrow> group_analysis E (contents self s) g a f = Inl e
       | Inr r \<Rightarrow> length s \<le> r \<and> r < length (snd (group_analysis_obj E self g a f s))
                 \<and> group_analysis E (contents self s) g a f
                     = Inr (snd (group_analysis_obj E self g a f s) ! r))"
proof (cases "g \<notin> set (columns (s ! ref_df self)) \<or> a \<notin> set (columns (s ! ref_df self))")
  case True
  then show ?thesis
    by (simp add: group_analysis_obj_def group_analysis_def contents_def extends_refl)
next
  case False
  then show ?thesis
    by (cases "groupby_agg E (s ! ref_df self) g a f")
       (simp_all add: group_analysis_obj_def group_analysis_def contents_def alloc_def
          extends_refl extends_append)
qed

subsection \<open>The orchestrator\<close>

lemma process_query_tier1:
  assumes "process_simple_query E self query = Inr result" and "success result"
  shows "process_query E self query = (Inr result, self)"
  using assms by (simp add: process_query_def try_except_st_def try_except_def)








section \<open>The claims\<close>



text \<open>
  C5. A query whose normalised text contains \<open>summary\<close> and that the top-N rule does not
  match satisfies the tests of both the overview rule and the statistics rule; the
  overview rule, tested first, decides: the outcome is the column-information table with
  the overview rule's explanation and code string, whatever \<open>describe\<close> would return, and
  it differs from what the statistics rule would give. The outcome is a function of the
  query and the frame, so repeated runs agree.
\<close>

theorem summary_resolves_to_overview:
  assumes "str_in ''summary'' (strip (lower query))"
    and "\<not> rule_top (strip (lower query))"
  shows "rule_info (strip (lower query)) \<and> rule_stats (strip (lower query))
         \<and> process_simple_query E self query =
             Inr (Success (ColumnInfo (get_column_info E (data_processor self)))
                    ''Dataset overview and column information'' ''df.info()'')
         \<and> process_query E self query =
             (Inr (Success (ColumnInfo (get_column_info E (data_processor self)))
                    ''Dataset overview and column information'' ''df.info()''), self)
         \<and> process_simple_query E self query \<noteq>
             bind_exn (describe E (qp_df self)) (\<lambda>d.
               Inr (Success (Frame d)
                      ''Statistical summary of numeric columns'' ''df.describe()''))"
proof -
  have i: "rule_info (strip (lower query))"
    using assms(1) by (auto simp: rule_info_def intro: any_inI)
  have s: "rule_stats (strip (lower query))"
    using assms(1) by (auto simp: rule_stats_def intro: any_inI)
  have t1: "process_simple_query E self query =
             Inr (Success (ColumnInfo (get_column_info E (data_processor self)))
                    ''Dataset overview and column information'' ''df.info()'')"
    using i assms(2) by (simp add: process_simple_query_def Let_def)
  then have pq: "process_query E self query =
             (Inr (Success (ColumnInfo (get_column_info E (data_processor self)))
                    ''Dataset overview and column information'' ''df.info()''), self)"
    by (rule process_query_tier1) simp
  have ne: "process_simple_query E self query \<noteq>
             bind_exn (describe E (qp_df self)) (\<lambda>d.
               Inr (Success (Frame d)
                      ''Statistical summary of numeric columns'' ''df.describe()''))"
    unfolding t1 by (cases "describe E (qp_df self)") (simp_all add: bind_exn_def)
  from i s t1 pq ne show ?thesis by blast
qed

theorem summary_resolves_to_overview_witness:
  "data_of (projr (fst (process_query offline_env (QueryProcessor_init readings)
                          ''Give me a summary'')))
     = ColumnInfo [\<lparr>Column = ''x'', Data_Type = ''int64'', Non_Null_Count = 3, Null_Count = 0,
                    Unique_Values = 3, Memory_Usage_KB = 0.15,
                    Min_Max_Mean = Some (NumV 1, NumV 3, NumV 2), Sample_Values = None\<rparr>]"
proof -
  have a: "str_in ''summary'' (strip (lower ''Give me a summary''))"
    by code_simp
  have b: "\<not> rule_top (strip (lower ''Give me a summary''))"
    by code_simp
  have c: "get_column_info offline_env (data_processor (QueryProcessor_init readings))
     = [\<lparr>Column = ''x'', Data_Type = ''int64'', Non_Null_Count = 3, Null_Count = 0,
         Unique_Values = 3, Memory_Usage_KB = 0.15,
         Min_Max_Mean = Some (NumV 1, NumV 3, NumV 2), Sample_Values = None\<rparr>]"
    by code_simp
  show ?thesis
    using summary_resolves_to_overview [OF a b, of offline_env "QueryProcessor_init readings"]
    by (simp add: c)
qed

text \<open>
  C9. When none of the seven rules matches the normalised text and no API key is
  configured, \<open>process_query\<close> returns the failure whose message names the missing key.
  The service, the interpreter and the frame play no part in the result, and the query
  processor is left as it was.
\<close>

theorem no_key_failure:
  assumes "\<not> rule_top (strip (lower query))"
    and "\<not> rule_info (strip (lower query))"
    and "\<not> rule_stats (strip (lower query))"
    and "\<not> rule_count (strip (lower query))"
    and "\<not> rule_columns (strip (lower query))"
    and "\<not> rule_missing (strip (lower query))"
    and "\<not> rule_corr (strip (lower query))"
    and "\<not> key_configured E"
  shows "process_query E self query =
           (Inr (Failure
              ''Complex queries require OpenAI API key. Please configure it in your environment.''),
            self)"
proof -
  have "process_simple_query E self query = Inr (Failure ''Query not recognized'')"
    using assms by (simp add: process_simple_query_def Let_def)
  then show ?thesis
    using assms(8) by (simp add: process_query_def try_except_st_def try_except_def)
qed

theorem no_key_failure_witness:
  "fst (process_query offline_env (QueryProcessor_init staff)
          ''compute the median absolute deviation of salary grouped by department'')
     = Inr (Failure
         ''Complex queries require OpenAI API key. Please configure it in your environment.'')"
proof -
  let ?q = "''compute the median absolute deviation of salary grouped by department''"
  have 1: "\<not> rule_top (strip (lower ?q))" by code_simp
  have 2: "\<not> rule_info (strip (lower ?q))" by code_simp
  have 3: "\<not> rule_stats (strip (lower ?q))" by code_simp
  have 4: "\<not> rule_count (strip (lower ?q))" by code_simp
  have 5: "\<not> rule_columns (strip (lower ?q))" by code_simp
  have 6: "\<not> rule_missing (strip (lower ?q))" by code_simp
  have 7: "\<not> rule_corr (strip (lower ?q))" by code_simp
  have 8: "\<not> key_configured offline_env" by (simp add: key_configured_def offline_env_def)
  show ?thesis
    using no_key_failure [OF 1 2 3 4 5 6 7 8, of "QueryProcessor_init staff"] by simp
qed

text \<open>
  C2, as the code has it. A query that the correlation rule matches and no earlier rule
  does succeeds for every frame, whatever the number of its numeric columns: the data is
  the correlation table over the numeric columns, with one row and one column for each of
  them (a single cell for one numeric column, an empty table for none). No test on the
  number of numeric columns is made and no failure is produced.
\<close>

theorem correlation_rule_succeeds:
  assumes "\<not> rule_top (strip (lower query))"
    and "\<not> rule_info (strip (lower query))"
    and "\<not> rule_stats (strip (lower query))"
    and "\<not> rule_count (strip (lower query))"
    and "\<not> rule_columns (strip (lower query))"
    and "\<not> rule_missing (strip (lower query))"
    and "str_in ''correlation'' (strip (lower query)) \<or> str_in ''corr'' (strip (lower query))"
  shows "process_query E self query =
           (Inr (Success (Frame (correlation_analysis E (data_processor self)))
                   ''Correlation matrix for numeric columns'' ''df.corr()''), self)
         \<and> columns (correlation_analysis E (data_processor self))
             = columns (select_dtypes_number (dp_df (data_processor self)))
         \<and> len (correlation_analysis E (data_processor self))
             = length (columns (select_dtypes_number (dp_df (data_processor self))))
         \<and> (\<forall>cs\<in>set (data (correlation_analysis E (data_processor self))).
               length (snd (snd cs))
                 = length (columns (select_dtypes_number (dp_df (data_processor self)))))"
proof -
  have "rule_corr (strip (lower query))"
    using assms(7) by (simp add: rule_corr_def)
  then have "process_simple_query E self query =
      Inr (Success (Frame (correlation_analysis E (data_processor self)))
             ''Correlation matrix for numeric columns'' ''df.corr()'')"
    using assms(1-6) by (simp add: process_simple_query_def Let_def)
  then have "process_query E self query =
           (Inr (Success (Frame (correlation_analysis E (data_processor self)))
                   ''Correlation matrix for numeric columns'' ''df.corr()''), self)"
    by (rule process_query_tier1) simp
  then show ?thesis
    by (simp add: correlation_analysis_def Let_def columns_corr len_corr corr_square)
qed

theorem correlation_rule_succeeds_witness:
  "fst (process_query offline_env (QueryProcessor_init readings) ''correlation between x and y'')
       = Inr (Success (Frame \<lparr>index = [StrV ''x''], data = [(''x'', (Float64, [NumV 1]))]\<rparr>)
                ''Correlation matrix for numeric columns'' ''df.corr()'')
   \<and> len (correlation_analysis offline_env (data_processor (QueryProcessor_init readings))) = 1"
proof -
  let ?q = "''correlation between x and y''"
  have 1: "\<not> rule_top (strip (lower ?q))" by code_simp
  have 2: "\<not> rule_info (strip (lower ?q))" by code_simp
  have 3: "\<not> rule_stats (strip (lower ?q))" by code_simp
  have 4: "\<not> rule_count (strip (lower ?q))" by code_simp
  have 5: "\<not> rule_columns (strip (lower ?q))" by code_simp
  have 6: "\<not> rule_missing (strip (lower ?q))" by code_simp
  have "str_in ''correlation'' (strip (lower ?q))" by code_simp
  then have 7: "str_in ''correlation'' (strip (lower ?q)) \<or> str_in ''corr'' (strip (lower ?q))"
    by (rule disjI1)
  have c: "correlation_analysis offline_env (data_processor (QueryProcessor_init readings))
             = \<lparr>index = [StrV ''x''], data = [(''x'', (Float64, [NumV 1]))]\<rparr>"
    by code_simp
  have k: "length (columns (select_dtypes_number (dp_df (data_processor (QueryProcessor_init readings))))) = 1"
    by code_simp
  note t = correlation_rule_succeeds [OF 1 2 3 4 5 6 7, of offline_env "QueryProcessor_init readings"]
  from t show ?thesis
    by (simp only: c k fst_conv simp_thms)
qed

text \<open>
  C2 as stated fails: on the table with the single numeric column \<open>x\<close>, the query
  \<open>correlation between x and y\<close> triggers the correlation rule and the outcome is a
  success carrying a one-by-one table.
\<close>

theorem single_numeric_column_correlation_succeeds:
  "length (columns (select_dtypes_number readings)) = 1
   \<and> rule_corr (strip (lower ''correlation between x and y''))
   \<and> fst (process_query offline_env (QueryProcessor_init readings) ''correlation between x and y'')
       = Inr (Success (Frame \<lparr>index = [StrV ''x''], data = [(''x'', (Float64, [NumV 1]))]\<rparr>)
                ''Correlation matrix for numeric columns'' ''df.corr()'')"
  by code_simp








text \<open>
  C7, as the code has it. For a column of the frame and bounds \<open>a\<close>, \<open>b\<close> that are
  comparable with the column, \<open>filter_data\<close> with the range \<open>a\<close> to \<open>b\<close> on that column
  returns the frame cut to the rows whose value \<open>v\<close> satisfies \<open>a \<le> v \<le> b\<close>, in their
  order. For condition dictionaries on disjoint columns, one call with their union gives
  what filtering with the first and then a data processor built on the result filtering
  with the second gives, an exception included.
\<close>

theorem filter_range_and_composition:
  "(map_of (data (dp_df self)) col = Some (t, vs) \<and> comparable (t, vs) a \<and> comparable (t, vs) b
      \<longrightarrow> filter_data self [(col, Range (Some a) (Some b))]
            = Inr (select_rows (map (in_range a b) vs) (dp_df self)))
   \<and> (distinct (map fst C2) \<and> fst ` set C1 \<inter> fst ` set C2 = {}
      \<longrightarrow> filter_data self (dict_union C1 C2)
            = bind_exn (filter_data self C1) (\<lambda>d. filter_data (DataProcessor_init d) C2))"
proof (intro conjI impI)
  assume "map_of (data (dp_df self)) col = Some (t, vs) \<and> comparable (t, vs) a \<and> comparable (t, vs) b"
  then show "filter_data self [(col, Range (Some a) (Some b))]
            = Inr (select_rows (map (in_range a b) vs) (dp_df self))"
    using filter_range [of "dp_df self" col t vs a b]
    by (simp add: filter_data_def copy_def bind_exn_def)
next
  assume "distinct (map fst C2) \<and> fst ` set C1 \<inter> fst ` set C2 = {}"
  then have "dict_union C1 C2 = C1 @ C2"
    by (simp add: dict_union_disjoint)
  then show "filter_data self (dict_union C1 C2)
            = bind_exn (filter_data self C1) (\<lambda>d. filter_data (DataProcessor_init d) C2)"
    by (simp add: filter_data_def copy_def DataProcessor_init_def filter_loop_append)
qed

theorem filter_range_and_composition_witness:
  "filter_data (DataProcessor_init staff) [(''age'', Range (Some (NumV 35)) (Some (NumV 45)))]
     = Inr \<lparr>index = [NumV 3],
            data = [(''id'', (Int64, [NumV 4])), (''age'', (Float64, [NumV 41])),
                    (''dept'', (Object, [StrV ''Sales'']))]\<rparr>
   \<and> filter_data (DataProcessor_init staff)
        (dict_union [(''age'', Range (Some (NumV 35)) None)] [(''dept'', Values [StrV ''Sales''])])
     = bind_exn (filter_data (DataProcessor_init staff) [(''age'', Range (Some (NumV 35)) None)])
         (\<lambda>d. filter_data (DataProcessor_init d) [(''dept'', Values [StrV ''Sales''])])"
proof -
  let ?vs = "[NumV 30, Null, NumV 50, NumV 41]"
  let ?C1 = "[(''age'', Range (Some (NumV 35)) None)]"
  let ?C2 = "[(''dept'', Values [StrV ''Sales''])]"
  note t = filter_range_and_composition
             [of "DataProcessor_init staff" "''age''" Float64 ?vs "NumV 35" "NumV 45" ?C2 ?C1]
  have col: "map_of (data (dp_df (DataProcessor_init staff))) ''age'' = Some (Float64, ?vs)"
    by code_simp
  have a: "comparable (Float64, ?vs) (NumV 35)"
    by code_simp
  have b: "comparable (Float64, ?vs) (NumV 45)"
    by code_simp
  have sel: "select_rows (map (in_range (NumV 35) (NumV 45)) ?vs) (dp_df (DataProcessor_init staff))
     = \<lparr>index = [NumV 3],
        data = [(''id'', (Int64, [NumV 4])), (''age'', (Float64, [NumV 41])),
                (''dept'', (Object, [StrV ''Sales'']))]\<rparr>"
    by code_simp
  have "filter_data (DataProcessor_init staff) [(''age'', Range (Some (NumV 35)) (Some (NumV 45)))]
          = Inr (select_rows (map (in_range (NumV 35) (NumV 45)) ?vs) (dp_df (DataProcessor_init staff)))"
    using t col a b by blast
  then have 1: "filter_data (DataProcessor_init staff) [(''age'', Range (Some (NumV 35)) (Some (NumV 45)))]
     = Inr \<lparr>index = [NumV 3],
            data = [(''id'', (Int64, [NumV 4])), (''age'', (Float64, [NumV 41])),
                    (''dept'', (Object, [StrV ''Sales'']))]\<rparr>"
    by (simp only: sel)
  have d: "distinct (map fst ?C2)"
    by simp
  have dj: "fst ` set ?C1 \<inter> fst ` set ?C2 = {}"
    by simp
  have 2: "filter_data (DataProcessor_init staff) (dict_union ?C1 ?C2)
     = bind_exn (filter_data (DataProcessor_init staff) ?C1)
         (\<lambda>d. filter_data (DataProcessor_init d) ?C2)"
    using t d dj by blast
  from 1 2 show ?thesis by (rule conjI)
qed

text \<open>
  C7 as stated fails for bounds that are not comparable with the column: on the numeric
  column \<open>age\<close> of the staff table, a range with text bounds makes the comparison raise
  \<open>TypeError\<close>, and \<open>filter_data\<close> returns no rows at all.
\<close>

theorem text_bound_on_numeric_column_raises:
  "map_of (data (dp_df (DataProcessor_init staff))) ''age''
     = Some (Float64, [NumV 30, Null, NumV 50, NumV 41])
   \<and> filter_data (DataProcessor_init staff) [(''age'', Range (Some (StrV ''a'')) (Some (StrV ''z'')))]
     = Inl type_error"
  by code_simp

text \<open>
  C10. A condition whose key is not a column of the frame is skipped: \<open>filter_data\<close>
  returns what it returns on the dictionary without those conditions, the same frame or
  the same exception, and a dictionary made of such conditions only returns the frame
  unfiltered and raises nothing.
\<close>

theorem filter_ignores_unknown_columns:
  "filter_data self conditions
     = filter_data self (filter (\<lambda>item. fst item \<in> set (columns (dp_df self))) conditions)
   \<and> ((\<forall>item\<in>set conditions. fst item \<notin> set (columns (dp_df self)))
        \<longrightarrow> filter_data self conditions = Inr (dp_df self))"
  using filter_loop_known [of "dp_df self" "columns (dp_df self)" conditions]
    filter_loop_unknown [of conditions "dp_df self"]
  by (simp add: filter_data_def copy_def)

theorem filter_ignores_unknown_columns_witness:
  "filter_data (DataProcessor_init staff)
     [(''salary'', Range (Some (NumV 1000)) None), (''age'', Range (Some (NumV 35)) None)]
     = filter_data (DataProcessor_init staff) [(''age'', Range (Some (NumV 35)) None)]
   \<and> filter_data (DataProcessor_init staff) [(''salary'', Value (StrV ''high''))] = Inr staff"
proof -
  let ?cs = "[(''salary'', Range (Some (NumV 1000)) None), (''age'', Range (Some (NumV 35)) None)]"
  have k: "filter (\<lambda>item. fst item \<in> set (columns (dp_df (DataProcessor_init staff)))) ?cs
             = [(''age'', Range (Some (NumV 35)) None)]"
    by code_simp
  have 1: "filter_data (DataProcessor_init staff) ?cs
     = filter_data (DataProcessor_init staff) [(''age'', Range (Some (NumV 35)) None)]"
    using filter_ignores_unknown_columns [of "DataProcessor_init staff" ?cs, THEN conjunct1]
    by (simp only: k)
  have u: "\<forall>item\<in>set [(''salary'', Value (StrV ''high''))].
             fst item \<notin> set (columns (dp_df (DataProcessor_init staff)))"
    by code_simp
  have d: "dp_df (DataProcessor_init staff) = staff"
    by (simp add: DataProcessor_init_def copy_def)
  have 2: "filter_data (DataProcessor_init staff) [(''salary'', Value (StrV ''high''))] = Inr staff"
    using filter_ignores_unknown_columns
            [of "DataProcessor_init staff" "[(''salary'', Value (StrV ''high''))]", THEN conjunct2]
      u
    by (simp only: d) 
  from 1 2 show ?thesis by (rule conjI)
qed

text \<open>
  C8. None of \<open>get_column_info\<close>, \<open>analyze_missing_data\<close>, \<open>correlation_analysis\<close>,
  \<open>filter_data\<close>, \<open>group_analysis\<close> changes a frame object that exists when it is called:
  the store afterwards extends the store before, so the two frames the receiver holds are
  what they were. The frames that \<open>correlation_analysis\<close>, \<open>filter_data\<close> and
  \<open>group_analysis\<close> return are new objects, and each method computes what its definition
  on frame values computes.
\<close>

theorem operations_leave_receiver_unchanged:
  "extends s (snd (get_column_info_obj E self s))
   \<and> extends s (snd (analyze_missing_data_obj self s))
   \<and> extends s (snd (correlation_analysis_obj E self s))
   \<and> extends s (snd (filter_data_obj self conditions s))
   \<and> extends s (snd (group_analysis_obj E self g a f s))
   \<and> (valid self s \<longrightarrow>
        contents self (snd (get_column_info_obj E self s)) = contents self s
        \<and> contents self (snd (analyze_missing_data_obj self s)) = contents self s
        \<and> contents self (snd (correlation_analysis_obj E self s)) = contents self s
        \<and> contents self (snd (filter_data_obj self conditions s)) = contents self s
        \<and> contents self (snd (group_analysis_obj E self g a f s)) = contents self s)
   \<and> fst (get_column_info_obj E self s) = get_column_info E (contents self s)
   \<and> fst (analyze_missing_data_obj self s) = analyze_missing_data (contents self s)
   \<and> length s \<le> fst (correlation_analysis_obj E self s)
   \<and> snd (correlation_analysis_obj E self s) ! fst (correlation_analysis_obj E self s)
       = correlation_analysis E (contents self s)
   \<and> (case fst (filter_data_obj self conditions s) of
         Inl e \<Rightarrow> filter_data (contents self s) conditions = Inl e
       | Inr r \<Rightarrow> length s \<le> r \<and> r < length (snd (filter_data_obj self conditions s))
                 \<and> filter_data (contents self s) conditions
                     = Inr (snd (filter_data_obj self conditions s) ! r))
   \<and> (case fst (group_analysis_obj E self g a f s) of
         Inl e \<Rightarrow> group_analysis E (contents self s) g a f = Inl e
       | Inr r \<Rightarrow> length s \<le> r \<and> r < length (snd (group_analysis_obj E self g a f s))
                 \<and> group_analysis E (contents self s) g a f
                     = Inr (snd (group_analysis_obj E self g a f s) ! r))"
proof -
  have 1: "extends s (snd (get_column_info_obj E self s))"
    by (simp add: get_column_info_obj_def extends_refl)
  have 2: "extends s (snd (analyze_missing_data_obj self s))"
    by (simp add: analyze_missing_data_obj_def Let_def extends_refl)
  note 3 = correlation_analysis_obj_ok [of s E self]
  note 4 = filter_data_obj_ok [of s self conditions]
  note 5 = group_analysis_obj_ok [of s E self g a f]
  have 6: "fst (get_column_info_obj E self s) = get_column_info E (contents self s)"
    by (simp add: get_column_info_obj_def get_column_info_def contents_def)
  have 7: "fst (analyze_missing_data_obj self s) = analyze_missing_data (contents self s)"
    by (simp add: analyze_missing_data_obj_def analyze_missing_data_def contents_def Let_def)
  have 8: "valid self s \<longrightarrow>
        contents self (snd (get_column_info_obj E self s)) = contents self s
        \<and> contents self (snd (analyze_missing_data_obj self s)) = contents self s
        \<and> contents self (snd (correlation_analysis_obj E self s)) = contents self s
        \<and> contents self (snd (filter_data_obj self conditions s)) = contents self s
        \<and> contents self (snd (group_analysis_obj E self g a f s)) = contents self s"
    using 1 2 3 4 5 contents_extends by blast
  from 3 have c1: "extends s (snd (correlation_analysis_obj E self s))"
    and c2: "length s \<le> fst (correlation_analysis_obj E self s)"
    and c3: "snd (correlation_analysis_obj E self s) ! fst (correlation_analysis_obj E self s)
               = correlation_analysis E (contents self s)"
    by blast+
  from 4 have f1: "extends s (snd (filter_data_obj self conditions s))"
    by (rule conjunct1)
  from 4 have f2: "case fst (filter_data_obj self conditions s) of
         Inl e \<Rightarrow> filter_data (contents self s) conditions = Inl e
       | Inr r \<Rightarrow> length s \<le> r \<and> r < length (snd (filter_data_obj self conditions s))
                 \<and> filter_data (contents self s) conditions
                     = Inr (snd (filter_data_obj self conditions s) ! r)"
    by (rule conjunct2)
  from 5 have g1: "extends s (snd (group_analysis_obj E self g a f s))"
    by (rule conjunct1)
  from 5 have g2: "case fst (group_analysis_obj E self g a f s) of
         Inl e \<Rightarrow> group_analysis E (contents self s) g a f = Inl e
       | Inr r \<Rightarrow> length s \<le> r \<and> r < length (snd (group_analysis_obj E self g a f s))
                 \<and> group_analysis E (contents self s) g a f
                     = Inr (snd (group_analysis_obj E self g a f s) ! r)"
    by (rule conjunct2)
  from 1 2 c1 f1 g1 8 6 7 c2 c3 f2 g2 show ?thesis
    by (intro conjI)
qed

theorem operations_leave_receiver_unchanged_witness:
  "DataProcessor_new 0 [staff] = (\<lparr>ref_df = 1, ref_original_df = 2\<rparr>, [staff, staff, staff])
   \<and> fst (filter_data_obj \<lparr>ref_df = 1, ref_original_df = 2\<rparr>
            [(''age'', Range (Some (NumV 35)) None)] [staff, staff, staff]) = Inr 4
   \<and> contents \<lparr>ref_df = 1, ref_original_df = 2\<rparr>
        (snd (filter_data_obj \<lparr>ref_df = 1, ref_original_df = 2\<rparr>
                [(''age'', Range (Some (NumV 35)) None)] [staff, staff, staff]))
       = \<lparr>dp_df = staff, dp_original_df = staff\<rparr>
   \<and> contents \<lparr>ref_df = 1, ref_original_df = 2\<rparr>
        (snd (group_analysis_obj offline_env \<lparr>ref_df = 1, ref_original_df = 2\<rparr>
                ''dept'' ''age'' ''mean'' [staff, staff, staff]))
       = \<lparr>dp_df = staff, dp_original_df = staff\<rparr>"
proof -
  let ?self = "\<lparr>ref_df = 1, ref_original_df = 2\<rparr>"
  let ?s = "[staff, staff, staff]"
  let ?cs = "[(''age'', Range (Some (NumV 35)) None)]"
  have n: "DataProcessor_new 0 [staff] = (?self, ?s)"
    by (simp add: DataProcessor_new_def alloc_def copy_def)
  have r: "fst (filter_data_obj ?self ?cs ?s) = Inr 4"
    by code_simp
  have v: "valid ?self ?s"
    by (simp add: valid_def)
  have c: "contents ?self ?s = \<lparr>dp_df = staff, dp_original_df = staff\<rparr>"
    by (simp add: contents_def)
  note t = operations_leave_receiver_unchanged
             [of ?s offline_env ?self ?cs "''dept''" "''age''" "''mean''"]
  from t v have "contents ?self (snd (filter_data_obj ?self ?cs ?s)) = contents ?self ?s"
    and "contents ?self (snd (group_analysis_obj offline_env ?self ''dept'' ''age'' ''mean'' ?s))
           = contents ?self ?s"
    by blast+
  with n r c show ?thesis by (simp only: simp_thms)
qed

end
